theory Spec2Isabelle
  imports Main "HOL-Library.Word" "HOL-Library.Sublist"
begin

section \<open>The DDL statement pipeline of the applier (internal/applier/ddlstatement.go)\<close>

text \<open>
  The theory embeds \<open>NewDDLStatement\<close> and its helpers \<open>needTableSize\<close>,
  \<open>getTableSize\<close>, \<open>getWrapper\<close>, \<open>getConnectParams\<close> and \<open>ClientState\<close>.
  Go functions returning \<open>(T, error)\<close> become pairs \<open>T \<times> error option\<close>, since Go can
  return a value next to an error (the diff renderer does, for a forbidden statement).
  Collaborators whose code lies outside the file (the diff, the configuration, the database
  instance, the terminal and shell helpers) are records of the operations the file calls.
\<close>

subsection \<open>Machine integers and strings\<close>

text \<open>
  Table sizes are \<open>int64\<close>, byte-size options are \<open>uint64\<close>. Both are 64-bit words; an
  \<open>int64\<close> is read with \<open>sint\<close> and compared with \<open><s\<close>, a \<open>uint64\<close> is read with
  \<open>uint\<close> and compared with \<open><\<close>.
\<close>

type_synonym int64 = "64 word"
type_synonym uint64 = "64 word"

text \<open>Go's conversion \<open>int64(x)\<close> of a \<open>uint64\<close> keeps the 64 bits: from \<open>2^63\<close> on the
  result is negative.\<close>

definition int64 :: "uint64 \<Rightarrow> int64" where
  "int64 x = x"

text \<open>\<open>strings.ToUpper\<close>, on the ASCII letters (other bytes are kept), and
  \<open>strings.Contains\<close>.\<close>

definition upperChar :: "char \<Rightarrow> char" where
  "upperChar c = (let n = (of_char c :: nat) in if 97 \<le> n \<and> n \<le> 122 then char_of (n - 32) else c)"

definition ToUpper :: "string \<Rightarrow> string" where
  "ToUpper s = map upperChar s"

definition Contains :: "string \<Rightarrow> string \<Rightarrow> bool" where
  "Contains s substr = sublist substr s"

text \<open>\<open>strconv.Itoa\<close> and \<open>strconv.FormatInt(_, 10)\<close>: decimal digits, with a sign.\<close>

fun digits10 :: "nat \<Rightarrow> string" where
  "digits10 n = (if n < 10 then [char_of (48 + n)] else digits10 (n div 10) @ [char_of (48 + n mod 10)])"

declare digits10.simps [simp del]

definition Itoa :: "int \<Rightarrow> string" where
  "Itoa i = (if i < 0 then CHR ''-'' # digits10 (nat (- i)) else digits10 (nat i))"

subsection \<open>Errors\<close>

text \<open>
  The error values the pipeline meets: tengo's rejection of an unsafe diff (the one
  \<open>tengo.IsForbiddenDiff\<close> recognises), the applier's \<open>ConfigError\<close>, an error made by
  \<open>fmt.Errorf\<close>, and any other error of a collaborator. Each carries its message.
\<close>

datatype error =
    ForbiddenDiffError string
  | ConfigError string
  | Errorf string
  | OtherError string

fun Error :: "error \<Rightarrow> string" where
  "Error (ForbiddenDiffError m) = m"
| "Error (ConfigError m) = m"
| "Error (Errorf m) = m"
| "Error (OtherError m) = m"

fun IsForbiddenDiff :: "error option \<Rightarrow> bool" where
  "IsForbiddenDiff (Some (ForbiddenDiffError m)) = True"
| "IsForbiddenDiff e = False"

subsection \<open>The diff\<close>

text \<open>
  Of tengo's object types and diff types the applier names the database and the table,
  and creation, drop and alteration; every other value is kept under one constructor.
\<close>

datatype ObjectType = ObjectTypeDatabase | ObjectTypeTable | ObjectTypeOther string

datatype DiffType = DiffTypeCreate | DiffTypeDrop | DiffTypeAlter | DiffTypeOther string

record ObjectKey =
  Type :: ObjectType
  Name :: string

text \<open>The fields of \<open>tengo.StatementModifiers\<close> that the applier reads or writes.\<close>

record StatementModifiers =
  AllowUnsafe :: bool
  AlgorithmClause :: string
  LockClause :: string

text \<open>
  What the applier uses of a \<open>*tengo.TableDiff\<close>: its field \<open>Type\<close>, whether the
  second result of \<open>SplitAddForeignKeys()\<close> is non-nil, and \<open>Clauses(mods)\<close>.
\<close>

record TableDiff =
  td_Type :: DiffType
  addFKs :: bool
  Clauses :: "StatementModifiers \<Rightarrow> string \<times> error option"

text \<open>
  A value of the interface \<open>tengo.ObjectDiff\<close>: the results of its methods
  \<open>ObjectKey()\<close>, \<open>DiffType()\<close> and \<open>Statement(mods)\<close>; \<open>asTableDiff\<close> is the type
  assertion \<open>diff.(*tengo.TableDiff)\<close> (\<open>None\<close> when the dynamic type is another one);
  \<open>asCompounder\<close> is the assertion \<open>diff.(tengo.Compounder)\<close> together with the answer of
  \<open>IsCompoundStatement()\<close>.
\<close>

record ObjectDiff =
  ObjectKey :: ObjectKey
  DiffType :: DiffType
  Statement :: "StatementModifiers \<Rightarrow> string \<times> error option"
  asTableDiff :: "TableDiff option"
  asCompounder :: "bool option"

subsection \<open>Configuration, instance and target\<close>

text \<open>The typed lookups of \<open>mybase.Config\<close> that the applier calls, by option name.\<close>

record Config =
  Get :: "string \<Rightarrow> string"
  Changed :: "string \<Rightarrow> bool"
  GetBytes :: "string \<Rightarrow> uint64 \<times> error option"
  GetBool :: "string \<Rightarrow> bool"
  GetAllowEnvVar :: "string \<Rightarrow> string"

text \<open>
  A \<open>tengo.Instance\<close>: the connection fields read for the wrapper variables, its
  \<open>String()\<close>, and the answers of the two queries \<open>TableHasRows(schema, table)\<close> and
  \<open>TableSize(schema, table)\<close>.
\<close>

record Instance =
  Host :: string
  Port :: int
  SocketPath :: string
  instance_String :: string
  TableHasRows :: "string \<Rightarrow> string \<Rightarrow> bool \<times> error option"
  TableSize :: "string \<Rightarrow> string \<Rightarrow> int64 \<times> error option"

record Dir =
  Config :: Config
  Path :: string
  BaseName :: string

record Target =
  Instance :: Instance
  SchemaName :: string
  Dir :: Dir

subsection \<open>Helpers of package util and of the terminal\<close>

datatype ShellOut = ShellOut (Command: string)

text \<open>
  The helpers the constructor calls outside its file, as parameters: the width
  \<open>util.TerminalWidth\<close> reports for stderr, \<open>util.WrapStringWithPadding\<close>,
  \<open>util.RealConnectOptions\<close>, \<open>util.NewInterpolatedShellOut\<close>, and the renderings
  \<open>DiffType.String()\<close> and \<open>ObjectType.Caps()\<close>.
\<close>

record Sys =
  TerminalWidth :: int
  WrapStringWithPadding :: "string \<Rightarrow> int \<Rightarrow> string \<Rightarrow> string"
  RealConnectOptions :: "string \<Rightarrow> string \<times> error option"
  NewInterpolatedShellOut :: "string \<Rightarrow> (string \<rightharpoonup> string) \<Rightarrow> ShellOut option \<times> error option"
  DiffType_String :: "DiffType \<Rightarrow> string"
  ObjectType_Caps :: "ObjectType \<Rightarrow> string"

subsection \<open>Word-wrapping for the terminal\<close>

text \<open>
  Modelled from the spec: \<open>util.WrapStringWithPadding\<close>, a function of package \<open>util\<close>
  that the constructor calls on line 72 and whose file is not among the sources. The spec
  says that the rejection message embeds the would-be statement "word-wrapped for terminal
  display". \<open>splitWords\<close> cuts a text at each of its spaces.
\<close>

fun splitWords :: "string \<Rightarrow> string list" where
  "splitWords [] = [[]]"
| "splitWords (c # cs) =
     (if c = CHR '' '' then [] # splitWords cs
      else (case splitWords cs of [] \<Rightarrow> [[c]] | w # ws \<Rightarrow> (c # w) # ws))"

text \<open>
  Modelled from the spec: the filling of lines. A word joins the line being filled, behind
  one space, as long as the line stays within \<open>width\<close> characters; otherwise the line ends
  and the word opens the next one, which begins with \<open>padLeft\<close>. A word longer than
  \<open>width\<close> stands alone on its line.
\<close>

fun wrapWords :: "string list \<Rightarrow> string \<Rightarrow> nat \<Rightarrow> string \<Rightarrow> string" where
  "wrapWords [] line width padLeft = line"
| "wrapWords (w # ws) line width padLeft =
     (if length line + 1 + length w \<le> width
      then wrapWords ws (line @ '' '' @ w) width padLeft
      else line @ [CHR 0x0A] @ padLeft @ wrapWords ws w width padLeft)"

text \<open>
  Modelled from the spec: \<open>util.WrapStringWithPadding(s, width, padLeft)\<close>. A width below 1,
  which the constructor passes when stderr is no terminal, leaves the text as it is.
\<close>

definition util_WrapStringWithPadding :: "string \<Rightarrow> int \<Rightarrow> string \<Rightarrow> string" where
  "util_WrapStringWithPadding s width padLeft =
     (if width < 1 then s
      else (case splitWords s of [] \<Rightarrow> s | w # ws \<Rightarrow> wrapWords ws w (nat width) padLeft))"

subsection \<open>The state: addressable modifiers and the queries sent\<close>

text \<open>
  \<open>getWrapper\<close> writes through a pointer to a \<open>StatementModifiers\<close>, so variables of
  that type live in a store: \<open>vars\<close> maps an address to the value held there and \<open>fresh\<close>
  is the first address not in use. \<open>queries\<close> lists the queries sent to the instance, in
  order.
\<close>

type_synonym addr = nat

datatype Query = TableHasRowsQuery string string | TableSizeQuery string string

record State =
  vars :: "addr \<Rightarrow> StatementModifiers"
  fresh :: addr
  queries :: "Query list"

text \<open>A new variable holding \<open>v\<close>: how a by-value parameter comes to exist in the callee.\<close>

definition newVar :: "StatementModifiers \<Rightarrow> State \<Rightarrow> addr \<times> State" where
  "newVar v s = (fresh s, s\<lparr>vars := (vars s)(fresh s := v), fresh := Suc (fresh s)\<rparr>)"

subsection \<open>needTableSize, getTableSize\<close>

definition needTableSize :: "ObjectDiff \<Rightarrow> Config \<Rightarrow> bool" where
  "needTableSize diff config =
    (if Type (ObjectKey diff) \<noteq> ObjectTypeTable then False
     else if DiffType diff = DiffTypeCreate then False
     else if list_ex (\<lambda>opt. Changed config opt) [''safe-below-size'', ''alter-wrapper-min-size''] then True
     else if list_ex (\<lambda>opt. Contains (ToUpper (Get config opt)) ''{SIZE}'') [''alter-wrapper'', ''ddl-wrapper''] then True
     else False)"

definition getTableSize :: "Target \<Rightarrow> string \<Rightarrow> State \<Rightarrow> (int64 \<times> error option) \<times> State" where
  "getTableSize target tableName s =
    (let (hasRows, err) = TableHasRows (Instance target) (SchemaName target) tableName;
         s1 = s\<lparr>queries := queries s @ [TableHasRowsQuery (SchemaName target) tableName]\<rparr>
     in if \<not> hasRows \<or> err \<noteq> None then ((0, err), s1)
        else (TableSize (Instance target) (SchemaName target) tableName,
              s1\<lparr>queries := queries s1 @ [TableSizeQuery (SchemaName target) tableName]\<rparr>))"

subsection \<open>getWrapper\<close>

text \<open>\<open>mods\<close> is the pointer parameter: the address of the variable that is read and
  written through it.\<close>

definition getWrapper :: "Config \<Rightarrow> ObjectDiff \<Rightarrow> int64 \<Rightarrow> addr \<Rightarrow> State \<Rightarrow> (string \<times> error option) \<times> State" where
  "getWrapper config diff tableSize mods s =
    (let wrapper = Get config ''ddl-wrapper'' in
     if Type (ObjectKey diff) = ObjectTypeTable \<and> DiffType diff = DiffTypeAlter \<and> Changed config ''alter-wrapper'' then
       (case GetBytes config ''alter-wrapper-min-size'' of
          (minSize, Some err) \<Rightarrow> (('''', Some (ConfigError (Error err))), s)
        | (minSize, None) \<Rightarrow>
            if int64 minSize \<le>s tableSize then
              (let wrapper = Get config ''alter-wrapper'' in
               if 0 < minSize then
                 (if AlgorithmClause (vars s mods) \<noteq> '''' \<or> LockClause (vars s mods) \<noteq> '''' then
                    ((wrapper, None),
                     s\<lparr>vars := (vars s)(mods := (vars s mods)\<lparr>AlgorithmClause := '''', LockClause := ''''\<rparr>)\<rparr>)
                  else ((wrapper, None), s))
               else ((wrapper, None), s))
            else ((wrapper, None), s))
     else ((wrapper, None), s))"

subsection \<open>getConnectParams\<close>

definition getConnectParams :: "ObjectDiff \<Rightarrow> Config \<Rightarrow> string" where
  "getConnectParams diff config =
    (case asTableDiff diff of
       Some td \<Rightarrow>
         if td_Type td = DiffTypeAlter then
           (if GetBool config ''foreign-key-checks'' \<and> addFKs td
            then ''readTimeout=0&foreign_key_checks=1''
            else ''readTimeout=0'')
         else if td_Type td = DiffTypeDrop then ''readTimeout=0''
         else ''''
     | None \<Rightarrow> '''')"

subsection \<open>DDLStatement and ClientState\<close>

record DDLStatement =
  stmt :: string
  compound :: bool
  shellOut :: "ShellOut option"
  ddl_instance :: Instance
  schemaName :: string
  connectParams :: string

record ClientState =
  InstanceName :: string
  cs_SchemaName :: string
  Delimiter :: string

definition ClientState :: "DDLStatement \<Rightarrow> ClientState" where
  "ClientState ddl =
    (let cs = \<lparr>InstanceName = instance_String (ddl_instance ddl),
               cs_SchemaName = schemaName ddl,
               Delimiter = '';''\<rparr>
     in if shellOut ddl \<noteq> None then cs\<lparr>Delimiter := ''''\<rparr>
        else if compound ddl then cs\<lparr>Delimiter := ''//''\<rparr>
        else cs)"

subsection \<open>NewDDLStatement\<close>

text \<open>
  What a call of the constructor ends in: its two results, or the panic of the unchecked
  type assertion \<open>diff.(*tengo.TableDiff)\<close> on a diff of another dynamic type.
\<close>

datatype Outcome = Return "DDLStatement option" "error option" | Panic

text \<open>
  Lines 45 to 61: the table size, queried only when needed, and the safe-below-size
  option. \<open>mods\<close> is the address of the constructor's own variable \<open>mods\<close>. The debug log
  lines of the file have no effect on any result and are left out.
\<close>

definition applySizeOptions :: "ObjectDiff \<Rightarrow> addr \<Rightarrow> Target \<Rightarrow> State \<Rightarrow> (error + int64) \<times> State" where
  "applySizeOptions diff mods target s =
    (if needTableSize diff (Config (Dir target)) then
       (case getTableSize target (Name (ObjectKey diff)) s of
          ((tableSize, Some err), s1) \<Rightarrow> (Inl err, s1)
        | ((tableSize, None), s1) \<Rightarrow>
            (case GetBytes (Config (Dir target)) ''safe-below-size'' of
               (safeBelowSize, Some err) \<Rightarrow> (Inl err, s1)
             | (safeBelowSize, None) \<Rightarrow>
                 if tableSize <s int64 safeBelowSize
                 then (Inr tableSize,
                       s1\<lparr>vars := (vars s1)(mods := (vars s1 mods)\<lparr>AllowUnsafe := True\<rparr>)\<rparr>)
                 else (Inr tableSize, s1)))
     else (Inr 0, s))"

text \<open>Lines 71 to 73: the error returned for a forbidden statement.\<close>

definition rejectionError :: "Sys \<Rightarrow> string \<Rightarrow> error" where
  "rejectionError sys text =
    (let terminalWidth = TerminalWidth sys;
         commentedOutStmt = ''  # '' @ WrapStringWithPadding sys text (terminalWidth - 29) ''  # ''
     in Errorf (''Preventing execution of unsafe or potentially destructive statement:'' @ [CHR 0x0A]
                @ commentedOutStmt @ [CHR 0x0A]
                @ ''Use --allow-unsafe or --safe-below-size to permit this operation. For more information, see Safety Options section of --help.''))"

text \<open>
  Lines 101 to 124: the variables handed to the wrapper template; \<open>None\<close> is the panic of
  the type assertion on line 121.
\<close>

definition wrapperVariables ::
  "Sys \<Rightarrow> ObjectDiff \<Rightarrow> StatementModifiers \<Rightarrow> Target \<Rightarrow> DDLStatement \<Rightarrow> int64 \<Rightarrow> string \<Rightarrow> string \<Rightarrow> string
     \<Rightarrow> (string \<rightharpoonup> string) option" where
  "wrapperVariables sys diff mods target ddl tableSize socket port connOpts =
    (let variables = map_of
           [(''HOST'', Host (ddl_instance ddl)),
            (''PORT'', port),
            (''SOCKET'', socket),
            (''SCHEMA'', schemaName ddl),
            (''USER'', GetAllowEnvVar (Config (Dir target)) ''user''),
            (''PASSWORD'', GetAllowEnvVar (Config (Dir target)) ''password''),
            (''ENVIRONMENT'', Get (Config (Dir target)) ''environment''),
            (''DDL'', stmt ddl),
            (''CLAUSES'', ''''),
            (''NAME'', Name (ObjectKey diff)),
            (''TABLE'', ''''),
            (''SIZE'', Itoa (sint tableSize)),
            (''TYPE'', DiffType_String sys (DiffType diff)),
            (''CLASS'', ObjectType_Caps sys (Type (ObjectKey diff))),
            (''CONNOPTS'', connOpts),
            (''DIRNAME'', BaseName (Dir target)),
            (''DIRPATH'', Path (Dir target))]
     in if Type (ObjectKey diff) = ObjectTypeTable then
          (case asTableDiff diff of
             None \<Rightarrow> None
           | Some td \<Rightarrow>
               Some (variables(''CLAUSES'' \<mapsto> fst (Clauses td mods),
                               ''TABLE'' \<mapsto> Name (ObjectKey diff))))
        else Some variables)"

text \<open>
  Lines 69 to 131: rendering the statement with the final modifiers, then the connection
  parameters or the shell command. From line 69 on \<open>mods\<close> is only read, so it is passed
  as a value.
\<close>

definition buildDDL ::
  "Sys \<Rightarrow> ObjectDiff \<Rightarrow> StatementModifiers \<Rightarrow> Target \<Rightarrow> DDLStatement \<Rightarrow> int64 \<Rightarrow> string \<Rightarrow> Outcome" where
  "buildDDL sys diff mods target ddl0 tableSize wrapper =
    (case Statement diff mods of (text, err) \<Rightarrow>
       (let ddl = ddl0\<lparr>stmt := text\<rparr> in
        if IsForbiddenDiff err then Return None (Some (rejectionError sys (stmt ddl)))
        else if err \<noteq> None then Return None err
        else if stmt ddl = '''' then Return None None
        else
          (let ddl = (if asCompounder diff = Some True then ddl\<lparr>compound := True\<rparr> else ddl) in
           if wrapper = '''' then
             Return (Some (ddl\<lparr>connectParams := getConnectParams diff (Config (Dir target))\<rparr>)) None
           else
             (let socket = (if SocketPath (ddl_instance ddl) \<noteq> '''' then SocketPath (ddl_instance ddl) else '''');
                  port = (if SocketPath (ddl_instance ddl) \<noteq> '''' then '''' else Itoa (Port (ddl_instance ddl)))
              in case RealConnectOptions sys (Get (Config (Dir target)) ''connect-options'') of
                   (connOpts, Some cerr) \<Rightarrow> Return None (Some (ConfigError (Error cerr)))
                 | (connOpts, None) \<Rightarrow>
                     (case wrapperVariables sys diff mods target ddl tableSize socket port connOpts of
                        None \<Rightarrow> Panic
                      | Some variables \<Rightarrow>
                          (case NewInterpolatedShellOut sys wrapper variables of
                             (so, Some serr) \<Rightarrow>
                               Return None (Some (Errorf
                                 (''A fatal error occurred with pre-processing a DDL statement: ''
                                  @ Error serr @ ''.'')))
                           | (so, None) \<Rightarrow> Return (Some (ddl\<lparr>shellOut := so\<rparr>)) None))))))"

text \<open>Lines 34 to 43: the statement under construction, before anything is rendered.\<close>

definition newDDL :: "ObjectDiff \<Rightarrow> Target \<Rightarrow> DDLStatement" where
  "newDDL diff target =
    (let ddl = \<lparr>stmt = '''', compound = False, shellOut = None, ddl_instance = Instance target,
                schemaName = SchemaName target, connectParams = ''''\<rparr>
     in if Type (ObjectKey diff) = ObjectTypeDatabase then ddl\<lparr>schemaName := ''''\<rparr> else ddl)"

text \<open>
  The constructor. Its parameter \<open>mods\<close> is passed by value: the callee's variable is a
  new one holding a copy of the argument, and \<open>&mods\<close> is the address of that variable.
\<close>

definition NewDDLStatement :: "Sys \<Rightarrow> ObjectDiff \<Rightarrow> StatementModifiers \<Rightarrow> Target \<Rightarrow> State \<Rightarrow> Outcome \<times> State" where
  "NewDDLStatement sys diff modsArg target s0 =
    (let (mods, s) = newVar modsArg s0;
         ddl = newDDL diff target
     in case applySizeOptions diff mods target s of
          (Inl err, s1) \<Rightarrow> (Return None (Some err), s1)
        | (Inr tableSize, s1) \<Rightarrow>
            (case getWrapper (Config (Dir target)) diff tableSize mods s1 of
               ((wrapper, Some err), s2) \<Rightarrow> (Return None (Some err), s2)
             | ((wrapper, None), s2) \<Rightarrow>
                 (buildDDL sys diff (vars s2 mods) target ddl tableSize wrapper, s2)))"

section \<open>Example inputs\<close>

text \<open>
  Concrete collaborators on which the theorems below are instantiated. The renderer of
  each example diff behaves as tengo's does for that kind of change: dropping is refused
  unless unsafe changes are allowed, creating and altering are not.
\<close>

definition exConfig :: Config where
  "exConfig = \<lparr>Get = (\<lambda>opt. ''''), Changed = (\<lambda>opt. False), GetBytes = (\<lambda>opt. (0, None)),
               GetBool = (\<lambda>opt. False), GetAllowEnvVar = (\<lambda>opt. '''')\<rparr>"

definition exInstance :: Instance where
  "exInstance = \<lparr>Host = ''db1'', Port = 3306, SocketPath = '''', instance_String = ''db1:3306'',
                 TableHasRows = (\<lambda>schema table. (True, None)),
                 TableSize = (\<lambda>schema table. (4096, None))\<rparr>"

definition exTarget :: "Config \<Rightarrow> Target" where
  "exTarget config = \<lparr>Instance = exInstance, SchemaName = ''app'',
                       Dir = \<lparr>Config = config, Path = ''/schemas/app'', BaseName = ''app''\<rparr>\<rparr>"

text \<open>A terminal wide enough that wrapping leaves a short statement as it is, and a shell
  helper that accepts a template without placeholders unchanged.\<close>

definition exSys :: Sys where
  "exSys = \<lparr>TerminalWidth = 120,
            WrapStringWithPadding = (\<lambda>s lim padLeft. s),
            RealConnectOptions = (\<lambda>opts. (opts, None)),
            NewInterpolatedShellOut = (\<lambda>command variables. (Some (ShellOut command), None)),
            DiffType_String = (\<lambda>t. case t of DiffTypeCreate \<Rightarrow> ''CREATE'' | DiffTypeDrop \<Rightarrow> ''DROP''
                                       | DiffTypeAlter \<Rightarrow> ''ALTER'' | DiffTypeOther n \<Rightarrow> n),
            ObjectType_Caps = (\<lambda>t. case t of ObjectTypeDatabase \<Rightarrow> ''DATABASE'' | ObjectTypeTable \<Rightarrow> ''TABLE''
                                       | ObjectTypeOther n \<Rightarrow> ToUpper n)\<rparr>"

text \<open>The same helpers on a terminal of the given width, with the word-wrapping modelled above.\<close>

definition terminalSys :: "int \<Rightarrow> Sys" where
  "terminalSys width = exSys\<lparr>TerminalWidth := width, WrapStringWithPadding := util_WrapStringWithPadding\<rparr>"

definition exMods :: StatementModifiers where
  "exMods = \<lparr>AllowUnsafe = False, AlgorithmClause = ''inplace'', LockClause = ''none''\<rparr>"

text \<open>A caller whose own modifiers variable is at address 0.\<close>

definition exState :: State where
  "exState = \<lparr>vars = (\<lambda>a. exMods), fresh = 1, queries = []\<rparr>"

definition forbidUnlessUnsafe :: "string \<Rightarrow> StatementModifiers \<Rightarrow> string \<times> error option" where
  "forbidUnlessUnsafe text m =
     (text, if AllowUnsafe m then None else Some (ForbiddenDiffError ''destructive statement''))"

definition dropTable :: ObjectDiff where
  "dropTable = \<lparr>ObjectKey = \<lparr>Type = ObjectTypeTable, Name = ''t''\<rparr>, DiffType = DiffTypeDrop,
                Statement = forbidUnlessUnsafe ''DROP TABLE t'',
                asTableDiff = Some \<lparr>td_Type = DiffTypeDrop, addFKs = False, Clauses = (\<lambda>m. ('''', None))\<rparr>,
                asCompounder = None\<rparr>"

definition alterClauses :: "StatementModifiers \<Rightarrow> string" where
  "alterClauses m =
     (if AlgorithmClause m = '''' then '''' else ''ALGORITHM='' @ AlgorithmClause m @ '', '')
     @ (if LockClause m = '''' then '''' else ''LOCK='' @ LockClause m @ '', '')
     @ ''ADD COLUMN c int''"

definition alterTable :: ObjectDiff where
  "alterTable = \<lparr>ObjectKey = \<lparr>Type = ObjectTypeTable, Name = ''t''\<rparr>, DiffType = DiffTypeAlter,
                 Statement = (\<lambda>m. (''ALTER TABLE t '' @ alterClauses m, None)),
                 asTableDiff = Some \<lparr>td_Type = DiffTypeAlter, addFKs = False,
                                     Clauses = (\<lambda>m. (alterClauses m, None))\<rparr>,
                 asCompounder = None\<rparr>"

definition createTable :: ObjectDiff where
  "createTable = \<lparr>ObjectKey = \<lparr>Type = ObjectTypeTable, Name = ''t''\<rparr>, DiffType = DiffTypeCreate,
                  Statement = (\<lambda>m. (''CREATE TABLE t (id int)'', None)),
                  asTableDiff = Some \<lparr>td_Type = DiffTypeCreate, addFKs = False, Clauses = (\<lambda>m. ('''', None))\<rparr>,
                  asCompounder = None\<rparr>"

definition createProc :: ObjectDiff where
  "createProc = \<lparr>ObjectKey = \<lparr>Type = ObjectTypeOther ''procedure'', Name = ''p''\<rparr>, DiffType = DiffTypeCreate,
                 Statement = (\<lambda>m. (''CREATE PROCEDURE p() BEGIN SELECT 1; SELECT 2; END'', None)),
                 asTableDiff = None,
                 asCompounder = Some True\<rparr>"

definition dropProc :: ObjectDiff where
  "dropProc = \<lparr>ObjectKey = \<lparr>Type = ObjectTypeOther ''procedure'', Name = ''p''\<rparr>, DiffType = DiffTypeDrop,
               Statement = forbidUnlessUnsafe ''DROP PROCEDURE p'',
               asTableDiff = None,
               asCompounder = Some False\<rparr>"

definition noopAlter :: ObjectDiff where
  "noopAlter = alterTable\<lparr>Statement := (\<lambda>m. ('''', None))\<rparr>"

definition unsupportedAlter :: ObjectDiff where
  "unsupportedAlter = alterTable\<lparr>Statement := (\<lambda>m. ('''', Some (OtherError ''unsupported table diff'')))\<rparr>"

definition emptyTableInstance :: Instance where
  "emptyTableInstance = exInstance\<lparr>TableHasRows := (\<lambda>schema table. (False, None))\<rparr>"

definition emptyTarget :: "Config \<Rightarrow> Target" where
  "emptyTarget config = (exTarget config)\<lparr>Instance := emptyTableInstance\<rparr>"

text \<open>The general wrapper set to a command without placeholders.\<close>

definition wrapperConfig :: Config where
  "wrapperConfig = exConfig\<lparr>Get := (\<lambda>opt. if opt = ''ddl-wrapper'' then ''/usr/bin/true'' else '''')\<rparr>"

text \<open>safe-below-size set to 1 MiB, and to \<open>2^63\<close> bytes.\<close>

definition safeBelowConfig :: "uint64 \<Rightarrow> Config" where
  "safeBelowConfig x = exConfig\<lparr>Changed := (\<lambda>opt. opt = ''safe-below-size''),
                                 GetBytes := (\<lambda>opt. if opt = ''safe-below-size'' then (x, None) else (0, None))\<rparr>"

text \<open>alter-wrapper set to a command without placeholders, with alter-wrapper-min-size.\<close>

definition alterWrapperConfig :: "uint64 \<Rightarrow> Config" where
  "alterWrapperConfig m =
     exConfig\<lparr>Get := (\<lambda>opt. if opt = ''alter-wrapper'' then ''/usr/bin/osc'' else ''''),
              Changed := (\<lambda>opt. opt = ''alter-wrapper'' \<or> opt = ''alter-wrapper-min-size''),
              GetBytes := (\<lambda>opt. if opt = ''alter-wrapper-min-size'' then (m, None) else (0, None))\<rparr>"

text \<open>An alteration that adds a foreign key, and a configuration with foreign-key-checks on.\<close>

definition alterAddFK :: ObjectDiff where
  "alterAddFK = \<lparr>ObjectKey = \<lparr>Type = ObjectTypeTable, Name = ''t''\<rparr>, DiffType = DiffTypeAlter,
                 Statement = (\<lambda>m. (''ALTER TABLE t ADD FOREIGN KEY (u) REFERENCES users (id)'', None)),
                 asTableDiff = Some \<lparr>td_Type = DiffTypeAlter, addFKs = True,
                                     Clauses = (\<lambda>m. (''ADD FOREIGN KEY (u) REFERENCES users (id)'', None))\<rparr>,
                 asCompounder = None\<rparr>"

definition fkConfig :: Config where
  "fkConfig = exConfig\<lparr>GetBool := (\<lambda>opt. opt = ''foreign-key-checks'')\<rparr>"

text \<open>The general wrapper set to a command that names the size placeholder in lower case.\<close>

definition sizeWrapperConfig :: Config where
  "sizeWrapperConfig = exConfig\<lparr>Get := (\<lambda>opt. if opt = ''ddl-wrapper'' then ''/bin/echo {size}'' else '''')\<rparr>"

section \<open>Frame and trace lemmas\<close>

text \<open>Which queries each step sends, and which variables it can write.\<close>

lemma queries_getTableSize:
  "queries (snd (getTableSize target name s)) =
     queries s @ TableHasRowsQuery (SchemaName target) name #
       (if fst (TableHasRows (Instance target) (SchemaName target) name)
           \<and> snd (TableHasRows (Instance target) (SchemaName target) name) = None
        then [TableSizeQuery (SchemaName target) name] else [])"
  by (simp add: getTableSize_def Let_def split: prod.splits)

lemma vars_getTableSize: "vars (snd (getTableSize target name s)) = vars s"
  by (simp add: getTableSize_def Let_def split: prod.splits)

lemma queries_getWrapper: "queries (snd (getWrapper config diff tableSize p s)) = queries s"
  by (simp add: getWrapper_def Let_def split: prod.splits option.splits)

lemma vars_getWrapper: "a \<noteq> p \<Longrightarrow> vars (snd (getWrapper config diff tableSize p s)) a = vars s a"
  by (simp add: getWrapper_def Let_def split: prod.splits option.splits)

lemma vars_applySizeOptions: "a \<noteq> p \<Longrightarrow> vars (snd (applySizeOptions diff p target s)) a = vars s a"
  using vars_getTableSize [of target "Name (ObjectKey diff)" s]
  by (auto simp add: applySizeOptions_def Let_def split: prod.splits option.splits)

lemma queries_applySizeOptions:
  "queries (snd (applySizeOptions diff p target s)) =
     (if needTableSize diff (Config (Dir target))
      then queries (snd (getTableSize target (Name (ObjectKey diff)) s)) else queries s)"
  by (auto simp add: applySizeOptions_def Let_def split: prod.splits option.splits)

text \<open>The constructor, with the allocation of its parameter written out.\<close>

lemma NewDDLStatement_unfold:
  "NewDDLStatement sys diff mods target s =
    (case applySizeOptions diff (fresh s) target (snd (newVar mods s)) of
       (Inl err, s1) \<Rightarrow> (Return None (Some err), s1)
     | (Inr tableSize, s1) \<Rightarrow>
         (case getWrapper (Config (Dir target)) diff tableSize (fresh s) s1 of
            ((wrapper, Some err), s2) \<Rightarrow> (Return None (Some err), s2)
          | ((wrapper, None), s2) \<Rightarrow>
              (buildDDL sys diff (vars s2 (fresh s)) target (newDDL diff target) tableSize wrapper, s2)))"
  by (simp add: NewDDLStatement_def newVar_def Let_def)

lemma snd_NewDDLStatement:
  "snd (NewDDLStatement sys diff mods target s) =
     (case applySizeOptions diff (fresh s) target (snd (newVar mods s)) of
        (Inl err, s1) \<Rightarrow> s1
      | (Inr tableSize, s1) \<Rightarrow> snd (getWrapper (Config (Dir target)) diff tableSize (fresh s) s1))"
  by (simp add: NewDDLStatement_unfold split: prod.splits sum.splits option.splits)

text \<open>Once the size options and the wrapper are settled, the rest is \<open>buildDDL\<close>.\<close>

lemma NewDDLStatement_staged:
  assumes "newVar mods s = (p, s0)"
      and "applySizeOptions diff p target s0 = (Inr tableSize, s1)"
      and "getWrapper (Config (Dir target)) diff tableSize p s1 = ((wrapper, None), s2)"
  shows "NewDDLStatement sys diff mods target s =
           (buildDDL sys diff (vars s2 p) target (newDDL diff target) tableSize wrapper, s2)"
  using assms by (auto simp add: NewDDLStatement_unfold newVar_def)

lemma fst_NewDDLStatement_Some:
  assumes "fst (NewDDLStatement sys diff mods target s) = Return (Some ddl) None"
  shows "\<exists>m tableSize wrapper.
           buildDDL sys diff m target (newDDL diff target) tableSize wrapper = Return (Some ddl) None"
  using assms
  by (auto simp add: NewDDLStatement_unfold split: prod.splits sum.splits option.splits)

lemma newDDL_fields: "compound (newDDL diff target) = False" "shellOut (newDDL diff target) = None"
  by (simp_all add: newDDL_def Let_def)

lemma vars_NewDDLStatement:
  assumes "a < fresh s"
  shows "vars (snd (NewDDLStatement sys diff mods target s)) a = vars s a"
proof -
  have ne: "a \<noteq> fresh s" using assms by simp
  have v0: "vars (snd (newVar mods s)) a = vars s a"
    using ne by (simp add: newVar_def)
  show ?thesis
  proof (cases "applySizeOptions diff (fresh s) target (snd (newVar mods s))")
    case (Pair r s1)
    have v1: "vars s1 a = vars s a"
      using vars_applySizeOptions [OF ne, of diff target "snd (newVar mods s)"] Pair v0 by simp
    show ?thesis
    proof (cases r)
      case (Inl err)
      with Pair v1 show ?thesis by (simp add: snd_NewDDLStatement)
    next
      case (Inr tableSize)
      with Pair v1 vars_getWrapper [OF ne, of "Config (Dir target)" diff tableSize s1]
      show ?thesis by (simp add: snd_NewDDLStatement)
    qed
  qed
qed

lemma queries_NewDDLStatement:
  "queries (snd (NewDDLStatement sys diff mods target s)) =
     (if needTableSize diff (Config (Dir target))
      then queries (snd (getTableSize target (Name (ObjectKey diff)) s)) else queries s)"
proof -
  have q0: "queries (snd (newVar mods s)) = queries s" by (simp add: newVar_def)
  have g: "queries (snd (getTableSize target (Name (ObjectKey diff)) (snd (newVar mods s))))
         = queries (snd (getTableSize target (Name (ObjectKey diff)) s))"
    by (simp add: queries_getTableSize q0)
  show ?thesis
  proof (cases "applySizeOptions diff (fresh s) target (snd (newVar mods s))")
    case (Pair r s1)
    have q1: "queries s1 = (if needTableSize diff (Config (Dir target))
                then queries (snd (getTableSize target (Name (ObjectKey diff)) s)) else queries s)"
      using queries_applySizeOptions [of diff "fresh s" target "snd (newVar mods s)"] Pair q0 g
      by simp
    show ?thesis
    proof (cases r)
      case (Inl err)
      with Pair q1 show ?thesis by (simp add: snd_NewDDLStatement)
    next
      case (Inr tableSize)
      with Pair q1 queries_getWrapper [of "Config (Dir target)" diff tableSize "fresh s" s1]
      show ?thesis by (simp add: snd_NewDDLStatement)
    qed
  qed
qed

section \<open>What buildDDL returns\<close>

lemma buildDDL_forbidden:
  assumes "Statement diff m = (rendered, err)" and "IsForbiddenDiff err"
  shows "buildDDL sys diff m target ddl0 tableSize wrapper = Return None (Some (rejectionError sys rendered))"
  using assms by (simp add: buildDDL_def)

lemma buildDDL_error:
  assumes "Statement diff m = (rendered, Some e)" and "\<not> IsForbiddenDiff (Some e)"
  shows "buildDDL sys diff m target ddl0 tableSize wrapper = Return None (Some e)"
  using assms by (simp add: buildDDL_def)

lemma buildDDL_noop:
  assumes "Statement diff m = ('''', None)"
  shows "buildDDL sys diff m target ddl0 tableSize wrapper = Return None None"
  using assms by (simp add: buildDDL_def)

lemma buildDDL_stmt:
  assumes "buildDDL sys diff m target ddl0 tableSize wrapper = Return (Some ddl) None"
  shows "stmt ddl = fst (Statement diff m) \<and> stmt ddl \<noteq> ''''"
  using assms
  by (auto simp add: buildDDL_def Let_def split: prod.splits option.splits if_splits)

lemma buildDDL_compound:
  assumes "buildDDL sys diff m target ddl0 tableSize wrapper = Return (Some ddl) None"
  shows "compound ddl = (compound ddl0 \<or> asCompounder diff = Some True)"
  using assms
  by (auto simp add: buildDDL_def Let_def split: prod.splits option.splits if_splits)

lemma buildDDL_direct:
  assumes "buildDDL sys diff m target ddl0 tableSize '''' = Return (Some ddl) None"
  shows "shellOut ddl = shellOut ddl0 \<and> connectParams ddl = getConnectParams diff (Config (Dir target))"
  using assms
  by (auto simp add: buildDDL_def Let_def split: prod.splits option.splits if_splits)

lemma rejectionError_message:
  "\<exists>msg. rejectionError sys rendered = Errorf msg
     \<and> sublist (''  # '' @ WrapStringWithPadding sys rendered (TerminalWidth sys - 29) ''  # '') msg
     \<and> sublist ''--allow-unsafe'' msg \<and> sublist ''--safe-below-size'' msg"
proof -
  let ?head = "''Preventing execution of unsafe or potentially destructive statement:'' @ [CHR 0x0A]"
  let ?w = "''  # '' @ WrapStringWithPadding sys rendered (TerminalWidth sys - 29) ''  # ''"
  let ?tail = "''Use --allow-unsafe or --safe-below-size to permit this operation. For more information, see Safety Options section of --help.''"
  let ?msg = "?head @ ?w @ [CHR 0x0A] @ ?tail"
  have e: "rejectionError sys rendered = Errorf ?msg"
    by (simp add: rejectionError_def Let_def)
  have "?msg = ?head @ ?w @ ([CHR 0x0A] @ ?tail)" by simp
  then have a: "sublist ?w ?msg" unfolding sublist_def by blast
  have "?msg = (?head @ ?w @ [CHR 0x0A] @ ''Use '') @ ''--allow-unsafe''
                 @ '' or --safe-below-size to permit this operation. For more information, see Safety Options section of --help.''"
    by simp
  then have b: "sublist ''--allow-unsafe'' ?msg" unfolding sublist_def by blast
  have "?msg = (?head @ ?w @ [CHR 0x0A] @ ''Use --allow-unsafe or '') @ ''--safe-below-size''
                 @ '' to permit this operation. For more information, see Safety Options section of --help.''"
    by simp
  then have c: "sublist ''--safe-below-size'' ?msg" unfolding sublist_def by blast
  from e a b c show ?thesis by blast
qed

text \<open>
  What the modelled word-wrapping returns for a text that fits the width: the text itself,
  whatever its spaces.
\<close>

lemma splitWords_join:
  "\<exists>w ws. splitWords s = w # ws \<and> w @ concat (map (\<lambda>x. CHR '' '' # x) ws) = s"
  by (induction s) (auto split: list.splits)

lemma wrapWords_fits:
  "length line + length (concat (map (\<lambda>x. CHR '' '' # x) ws)) \<le> width
   \<Longrightarrow> wrapWords ws line width padLeft = line @ concat (map (\<lambda>x. CHR '' '' # x) ws)"
  by (induction ws arbitrary: line) auto

lemma util_WrapStringWithPadding_fits:
  assumes "int (length s) \<le> width"
  shows "util_WrapStringWithPadding s width padLeft = s"
proof (cases "width < 1")
  case True
  then show ?thesis by (simp add: util_WrapStringWithPadding_def)
next
  case False
  obtain w ws where sp: "splitWords s = w # ws" and j: "w @ concat (map (\<lambda>x. CHR '' '' # x) ws) = s"
    using splitWords_join by blast
  from j assms have "length w + length (concat (map (\<lambda>x. CHR '' '' # x) ws)) \<le> nat width"
    by (metis length_append nat_int nat_mono)
  from wrapWords_fits [OF this] j have "wrapWords ws w (nat width) padLeft = s" by simp
  with sp False show ?thesis by (simp add: util_WrapStringWithPadding_def)
qed

section \<open>Evaluation on the example inputs\<close>

text \<open>
  With the plain example configuration (no size option, no wrapper) no size is queried,
  the size is 0 and no wrapper is selected, whatever the diff.
\<close>

lemma plain_applySizeOptions:
  "applySizeOptions diff p (exTarget exConfig) s = (Inr 0, s)"
  by (simp add: applySizeOptions_def needTableSize_def Contains_def ToUpper_def exTarget_def exConfig_def)

lemma plain_getWrapper:
  "getWrapper (Config (Dir (exTarget exConfig))) diff tableSize p s = (('''', None), s)"
  by (simp add: getWrapper_def exTarget_def exConfig_def)

lemma fk_applySizeOptions:
  "applySizeOptions diff p (exTarget fkConfig) s = (Inr 0, s)"
  by (simp add: applySizeOptions_def needTableSize_def Contains_def ToUpper_def exTarget_def
        exConfig_def fkConfig_def)

lemma fk_getWrapper:
  "getWrapper (Config (Dir (exTarget fkConfig))) diff tableSize p s = (('''', None), s)"
  by (simp add: getWrapper_def exTarget_def exConfig_def fkConfig_def)

section \<open>Byte-size options and the conversion to int64\<close>

text \<open>
  Below \<open>2^63\<close> the conversion keeps the value; from \<open>2^63\<close> on the result is negative.
\<close>

lemma sint_int64_in_range:
  assumes "uint (X :: uint64) < 2 ^ 63"
  shows "sint (int64 X) = uint X"
proof -
  have "- (2 ^ 63) \<le> (0 :: int)" by simp
  also have "0 \<le> uint X" by simp
  finally have "signed_take_bit 63 (uint X) = uint X"
    using assms by (rule signed_take_bit_int_eq_self)
  then show ?thesis by (simp add: int64_def sint_uint)
qed

lemma sint_int64_out_of_range:
  assumes "2 ^ 63 \<le> uint (X :: uint64)"
  shows "sint (int64 X) < 0"
proof -
  have lt: "uint X < 2 ^ 64" using uint_lt2p [of X] by simp
  have "uint X div 2 ^ 63 = 1"
  proof -
    have "uint X div 2 ^ 63 < 2" using lt by (simp add: div_less_iff_less_mult)
    moreover have "1 \<le> uint X div 2 ^ 63" using assms by (simp add: pos_imp_zdiv_pos_iff)
    ultimately show ?thesis by linarith
  qed
  then have "bit (uint X) 63" by (simp add: bit_iff_odd_drop_bit drop_bit_eq_div)
  then show ?thesis by (simp add: int64_def sint_uint signed_take_bit_negative_iff)
qed

text \<open>
  The safe-below-size option: for a threshold below \<open>2^63\<close> allow-unsafe is set exactly
  when the size is below the threshold; from \<open>2^63\<close> on it is never set for a size that
  is not negative.
\<close>

lemma safe_below_size_in_range:
  assumes "needTableSize diff (Config (Dir target))"
      and "getTableSize target (Name (ObjectKey diff)) s = ((S, None), s1)"
      and "GetBytes (Config (Dir target)) ''safe-below-size'' = (X, None)"
      and "uint X < 2 ^ 63"
  shows "applySizeOptions diff p target s =
           (Inr S, if sint S < uint X
                   then s1\<lparr>vars := (vars s1)(p := (vars s1 p)\<lparr>AllowUnsafe := True\<rparr>)\<rparr>
                   else s1)"
  using assms(1-3) sint_int64_in_range [OF assms(4)]
  by (simp add: applySizeOptions_def word_sless_alt)

lemma safe_below_size_out_of_range:
  assumes "needTableSize diff (Config (Dir target))"
      and "getTableSize target (Name (ObjectKey diff)) s = ((S, None), s1)"
      and "GetBytes (Config (Dir target)) ''safe-below-size'' = (X, None)"
      and "2 ^ 63 \<le> uint X" and "0 \<le> sint S"
  shows "applySizeOptions diff p target s = (Inr S, s1)"
  using assms(1-3,5) sint_int64_out_of_range [OF assms(4)]
  by (simp add: applySizeOptions_def word_sless_alt)

text \<open>
  The alter-wrapper of a table alteration: for a minimum size below \<open>2^63\<close> it is selected
  exactly when the size reaches the minimum; from \<open>2^63\<close> on it is selected, and the
  clauses are cleared, for every size that is not negative.
\<close>

lemma alter_wrapper_in_range:
  assumes "Type (ObjectKey diff) = ObjectTypeTable" and "DiffType diff = DiffTypeAlter"
      and "Changed config ''alter-wrapper''"
      and "GetBytes config ''alter-wrapper-min-size'' = (M, None)"
      and "uint M < 2 ^ 63"
  shows "sint S < uint M \<Longrightarrow> getWrapper config diff S p s = ((Get config ''ddl-wrapper'', None), s)"
    and "uint M \<le> sint S \<Longrightarrow> fst (getWrapper config diff S p s) = (Get config ''alter-wrapper'', None)"
    and "uint M \<le> sint S \<Longrightarrow> 0 < uint M \<Longrightarrow>
           AlgorithmClause (vars (snd (getWrapper config diff S p s)) p) = ''''
           \<and> LockClause (vars (snd (getWrapper config diff S p s)) p) = ''''"
    and "uint M \<le> sint S \<Longrightarrow> uint M = 0 \<Longrightarrow> snd (getWrapper config diff S p s) = s"
  using assms(1-4) sint_int64_in_range [OF assms(5)]
  by (auto simp add: getWrapper_def word_sle_eq word_less_def Let_def)

lemma alter_wrapper_out_of_range:
  assumes "Type (ObjectKey diff) = ObjectTypeTable" and "DiffType diff = DiffTypeAlter"
      and "Changed config ''alter-wrapper''"
      and "GetBytes config ''alter-wrapper-min-size'' = (M, None)"
      and "2 ^ 63 \<le> uint M" and "0 \<le> sint S"
  shows "fst (getWrapper config diff S p s) = (Get config ''alter-wrapper'', None)
         \<and> AlgorithmClause (vars (snd (getWrapper config diff S p s)) p) = ''''
         \<and> LockClause (vars (snd (getWrapper config diff S p s)) p) = ''''"
proof -
  have "0 < uint M" using assms(5) by (simp add: order.strict_trans2 [of 0 "2 ^ 63"])
  then have pos: "0 < M" by (simp add: word_less_def)
  have "sint (int64 M) \<le> sint S"
    using sint_int64_out_of_range [OF assms(5)] assms(6) by simp
  then show ?thesis
    using assms(1-4) pos by (auto simp add: getWrapper_def word_sle_eq Let_def)
qed

section \<open>The condition of needTableSize\<close>

lemma needTableSize_unfold:
  "needTableSize diff config \<longleftrightarrow>
     Type (ObjectKey diff) = ObjectTypeTable \<and> DiffType diff \<noteq> DiffTypeCreate \<and>
     (Changed config ''safe-below-size'' \<or> Changed config ''alter-wrapper-min-size''
      \<or> Contains (ToUpper (Get config ''alter-wrapper'')) ''{SIZE}''
      \<or> Contains (ToUpper (Get config ''ddl-wrapper'')) ''{SIZE}'')"
  by (simp add: needTableSize_def)

section \<open>The claims\<close>

subsection \<open>C1: a forbidden statement is rejected\<close>

text \<open>
  Claim C1 says that whenever the diff reports the rendered operation as forbidden, the
  constructor returns no DDLStatement and an error whose message contains the would-be
  statement text and the two literal option names \<open>--allow-unsafe\<close> and
  \<open>--safe-below-size\<close>. The absent statement and the two names are as claimed. The
  statement, though, enters the message on line 72 through \<open>WrapStringWithPadding\<close>, at
  the terminal width less 29 and behind \<open>  # \<close>: a statement longer than that width is
  broken across lines. On a terminal of 40 columns \<open>DROP TABLE t\<close> is shown as the two
  lines \<open>  # DROP TABLE\<close> and \<open>  # t\<close>, and the message does not contain the statement
  text: \<open>statement_broken_across_lines\<close>.

  Claim C1, as amended. Whenever construction reaches the rendering of the statement and
  the diff reports the rendered operation as forbidden, the constructor returns no
  DDLStatement and an error whose message contains the two option names and the would-be
  statement as word-wrapped for the terminal, that is the text \<open>WrapStringWithPadding\<close>
  returns for it, behind \<open>  # \<close>; where the wrapping returns the statement unchanged, the
  message contains the statement text itself. This holds for every wrapping helper. The
  one modelled here returns a text that fits the width unchanged
  (\<open>util_WrapStringWithPadding_fits\<close>), as on the terminal of 120 columns of the witness.
\<close>

theorem forbidden_statement_rejected:
  assumes "newVar mods s = (p, s0)"
      and "applySizeOptions diff p target s0 = (Inr tableSize, s1)"
      and "getWrapper (Config (Dir target)) diff tableSize p s1 = ((wrapper, None), s2)"
      and "Statement diff (vars s2 p) = (rendered, err)"
      and "IsForbiddenDiff err"
  shows "\<exists>msg. fst (NewDDLStatement sys diff mods target s) = Return None (Some (Errorf msg))
           \<and> sublist (''  # '' @ WrapStringWithPadding sys rendered (TerminalWidth sys - 29) ''  # '') msg
           \<and> sublist ''--allow-unsafe'' msg \<and> sublist ''--safe-below-size'' msg
           \<and> (WrapStringWithPadding sys rendered (TerminalWidth sys - 29) ''  # '' = rendered
                \<longrightarrow> sublist rendered msg)"
proof -
  let ?w = "WrapStringWithPadding sys rendered (TerminalWidth sys - 29) ''  # ''"
  have "fst (NewDDLStatement sys diff mods target s) = Return None (Some (rejectionError sys rendered))"
    using NewDDLStatement_staged [OF assms(1-3), of sys] buildDDL_forbidden [OF assms(4,5)] by simp
  with rejectionError_message [of sys rendered] obtain msg where
    r: "fst (NewDDLStatement sys diff mods target s) = Return None (Some (Errorf msg))"
    and w: "sublist (''  # '' @ ?w) msg"
    and o: "sublist ''--allow-unsafe'' msg" "sublist ''--safe-below-size'' msg"
    by auto
  have "''  # '' @ ?w = ''  # '' @ ?w @ []" by simp
  then have "sublist ?w (''  # '' @ ?w)" unfolding sublist_def by blast
  from this w have "sublist ?w msg" by (rule sublist_order.order_trans)
  then have "?w = rendered \<longrightarrow> sublist rendered msg" by metis
  with r w o show ?thesis by blast
qed

theorem statement_broken_across_lines:
  "Statement dropTable exMods = (''DROP TABLE t'', Some (ForbiddenDiffError ''destructive statement''))
   \<and> fst (NewDDLStatement (terminalSys 40) dropTable exMods (exTarget exConfig) exState)
       = Return None (Some (Errorf
           (''Preventing execution of unsafe or potentially destructive statement:'' @ [CHR 0x0A]
            @ ''  # DROP TABLE'' @ [CHR 0x0A] @ ''  # t'' @ [CHR 0x0A]
            @ ''Use --allow-unsafe or --safe-below-size to permit this operation. For more information, see Safety Options section of --help.'')))
   \<and> \<not> sublist ''DROP TABLE t''
           (''Preventing execution of unsafe or potentially destructive statement:'' @ [CHR 0x0A]
            @ ''  # DROP TABLE'' @ [CHR 0x0A] @ ''  # t'' @ [CHR 0x0A]
            @ ''Use --allow-unsafe or --safe-below-size to permit this operation. For more information, see Safety Options section of --help.'')"
proof -
  have a: "Statement dropTable exMods = (''DROP TABLE t'', Some (ForbiddenDiffError ''destructive statement''))"
    by (simp add: dropTable_def forbidUnlessUnsafe_def exMods_def)
  have b: "fst (NewDDLStatement (terminalSys 40) dropTable exMods (exTarget exConfig) exState)
       = Return None (Some (Errorf
           (''Preventing execution of unsafe or potentially destructive statement:'' @ [CHR 0x0A]
            @ ''  # DROP TABLE'' @ [CHR 0x0A] @ ''  # t'' @ [CHR 0x0A]
            @ ''Use --allow-unsafe or --safe-below-size to permit this operation. For more information, see Safety Options section of --help.'')))"
    by (simp add: NewDDLStatement_def newVar_def applySizeOptions_def needTableSize_def
          getTableSize_def getWrapper_def buildDDL_def newDDL_def wrapperVariables_def
          getConnectParams_def rejectionError_def int64_def Let_def exConfig_def exInstance_def exTarget_def exSys_def exMods_def exState_def
          dropTable_def forbidUnlessUnsafe_def terminalSys_def util_WrapStringWithPadding_def
          word_sless_alt Contains_def ToUpper_def)
  have c: "\<not> sublist ''DROP TABLE t''
           (''Preventing execution of unsafe or potentially destructive statement:'' @ [CHR 0x0A]
            @ ''  # DROP TABLE'' @ [CHR 0x0A] @ ''  # t'' @ [CHR 0x0A]
            @ ''Use --allow-unsafe or --safe-below-size to permit this operation. For more information, see Safety Options section of --help.'')"
    by code_simp
  from a b c show ?thesis by blast
qed

theorem forbidden_statement_rejected_witness:
  "IsForbiddenDiff (snd (Statement dropTable exMods))
   \<and> WrapStringWithPadding (terminalSys 120) ''DROP TABLE t'' (TerminalWidth (terminalSys 120) - 29) ''  # ''
       = ''DROP TABLE t''
   \<and> (\<exists>msg. fst (NewDDLStatement (terminalSys 120) dropTable exMods (exTarget exConfig) exState)
               = Return None (Some (Errorf msg))
            \<and> sublist ''  # DROP TABLE t'' msg
            \<and> sublist ''--allow-unsafe'' msg \<and> sublist ''--safe-below-size'' msg
            \<and> sublist ''DROP TABLE t'' msg)"
proof -
  let ?s0 = "snd (newVar exMods exState)"
  have h1: "newVar exMods exState = (fresh exState, ?s0)"
    by (simp add: newVar_def)
  have h4: "Statement dropTable (vars ?s0 (fresh exState))
              = (''DROP TABLE t'', Some (ForbiddenDiffError ''destructive statement''))"
    by (simp add: newVar_def dropTable_def forbidUnlessUnsafe_def exMods_def)
  have h5: "IsForbiddenDiff (Some (ForbiddenDiffError ''destructive statement''))"
    by simp
  have w: "WrapStringWithPadding (terminalSys 120) ''DROP TABLE t'' (TerminalWidth (terminalSys 120) - 29) ''  # ''
             = ''DROP TABLE t''"
    by (simp add: terminalSys_def util_WrapStringWithPadding_fits)
  have f: "IsForbiddenDiff (snd (Statement dropTable exMods))"
    by (simp add: dropTable_def forbidUnlessUnsafe_def exMods_def)
  from forbidden_statement_rejected [OF h1 plain_applySizeOptions plain_getWrapper h4 h5, of "terminalSys 120"] w f
  show ?thesis by simp
qed

subsection \<open>C2: the safe-below-size option\<close>

text \<open>
  Claim C2. When a table size \<open>S\<close> was queried and \<open>S\<close> is strictly less than the
  safe-below-size threshold \<open>X\<close>, allow-unsafe is set before the statement is rendered;
  when \<open>S \<ge> X\<close> it is left as the caller gave it.

  The file compares \<open>tableSize < int64(safeBelowSize)\<close>. For a threshold below \<open>2^63\<close> this
  is the comparison of the two sizes and the claim holds (\<open>safe_below_size_in_range\<close>).
  From \<open>2^63\<close> on the conversion yields a negative number and the option is never
  applied (\<open>safe_below_size_out_of_range\<close>). The theorem runs the constructor on such an
  input: with a threshold of \<open>2^63\<close> bytes and a table without rows (size 0), the drop
  of the table without allow-unsafe is rejected, although \<open>0 < 2^63\<close>.
\<close>

theorem safe_below_size_from_2_63:
  "GetBytes (safeBelowConfig (2 ^ 63)) ''safe-below-size'' = (2 ^ 63, None)
   \<and> fst (applySizeOptions dropTable (fresh exState) (emptyTarget (safeBelowConfig (2 ^ 63)))
            (snd (newVar exMods exState))) = Inr 0
   \<and> sint (0 :: int64) < uint (2 ^ 63 :: uint64)
   \<and> \<not> AllowUnsafe (vars (snd (NewDDLStatement exSys dropTable exMods
                                   (emptyTarget (safeBelowConfig (2 ^ 63))) exState)) (fresh exState))
   \<and> fst (NewDDLStatement exSys dropTable exMods (emptyTarget (safeBelowConfig (2 ^ 63))) exState)
       = Return None (Some (rejectionError exSys ''DROP TABLE t''))"
  by (simp add: NewDDLStatement_def newVar_def applySizeOptions_def needTableSize_def
        getTableSize_def getWrapper_def buildDDL_def newDDL_def wrapperVariables_def
        getConnectParams_def rejectionError_def int64_def Let_def exConfig_def exInstance_def exTarget_def exSys_def exMods_def exState_def
        dropTable_def forbidUnlessUnsafe_def emptyTarget_def emptyTableInstance_def safeBelowConfig_def word_sless_alt)

subsection \<open>C3: the alter-wrapper and its minimum size\<close>

text \<open>
  Claim C3. For a table alteration with alter-wrapper explicitly configured: if the table
  size \<open>S\<close> is at or above alter-wrapper-min-size \<open>M\<close> the alter-wrapper is selected, and
  when \<open>M > 0\<close> the algorithm and lock clauses are cleared; if \<open>S < M\<close> the general wrapper
  is kept and the clauses are unchanged.

  The file compares \<open>tableSize >= int64(minSize)\<close>. For \<open>M\<close> below \<open>2^63\<close> the claim holds
  (\<open>alter_wrapper_in_range\<close>). From \<open>2^63\<close> on the conversion yields a negative number, so
  every table counts as large enough (\<open>alter_wrapper_out_of_range\<close>). The theorem runs the
  constructor on such an input: with \<open>M = 2^63\<close>, no general wrapper and a table without
  rows (size 0), the alteration is handed to the alter-wrapper and rendered without its
  algorithm and lock clauses, although \<open>0 < 2^63\<close>.
\<close>

theorem alter_wrapper_min_size_from_2_63:
  "GetBytes (alterWrapperConfig (2 ^ 63)) ''alter-wrapper-min-size'' = (2 ^ 63, None)
   \<and> fst (applySizeOptions alterTable (fresh exState) (emptyTarget (alterWrapperConfig (2 ^ 63)))
            (snd (newVar exMods exState))) = Inr 0
   \<and> sint (0 :: int64) < uint (2 ^ 63 :: uint64)
   \<and> Get (alterWrapperConfig (2 ^ 63)) ''ddl-wrapper'' = ''''
   \<and> Statement alterTable exMods = (''ALTER TABLE t ALGORITHM=inplace, LOCK=none, ADD COLUMN c int'', None)
   \<and> fst (NewDDLStatement exSys alterTable exMods (emptyTarget (alterWrapperConfig (2 ^ 63))) exState)
       = Return (Some \<lparr>stmt = ''ALTER TABLE t ADD COLUMN c int'', compound = False,
                        shellOut = Some (ShellOut ''/usr/bin/osc''), ddl_instance = emptyTableInstance,
                        schemaName = ''app'', connectParams = ''''\<rparr>) None"
  by (simp add: NewDDLStatement_def newVar_def applySizeOptions_def needTableSize_def
        getTableSize_def getWrapper_def buildDDL_def newDDL_def wrapperVariables_def
        getConnectParams_def rejectionError_def int64_def Let_def exConfig_def exInstance_def exTarget_def exSys_def exMods_def exState_def
        alterTable_def alterClauses_def emptyTarget_def emptyTableInstance_def alterWrapperConfig_def word_sle_eq word_sless_alt Contains_def ToUpper_def)

subsection \<open>C4: no-op statements and other rendering errors\<close>

text \<open>
  Claim C4. Whenever construction reaches the rendering of the statement: if the diff
  renders the empty text with no error, the constructor returns neither a DDLStatement nor
  an error; if it returns an error that is not the forbidden one, the constructor returns
  that very error and no DDLStatement.
\<close>

theorem noop_and_other_errors:
  assumes "newVar mods s = (p, s0)"
      and "applySizeOptions diff p target s0 = (Inr tableSize, s1)"
      and "getWrapper (Config (Dir target)) diff tableSize p s1 = ((wrapper, None), s2)"
  shows "(Statement diff (vars s2 p) = ('''', None)
            \<longrightarrow> fst (NewDDLStatement sys diff mods target s) = Return None None)
       \<and> (\<forall>rendered e. Statement diff (vars s2 p) = (rendered, Some e) \<and> \<not> IsForbiddenDiff (Some e)
            \<longrightarrow> fst (NewDDLStatement sys diff mods target s) = Return None (Some e))"
  using NewDDLStatement_staged [OF assms, of sys] buildDDL_noop buildDDL_error by simp

theorem noop_and_other_errors_witness:
  "Statement noopAlter exMods = ('''', None)
   \<and> fst (NewDDLStatement exSys noopAlter exMods (exTarget exConfig) exState) = Return None None
   \<and> Statement unsupportedAlter exMods = ('''', Some (OtherError ''unsupported table diff''))
   \<and> \<not> IsForbiddenDiff (Some (OtherError ''unsupported table diff''))
   \<and> fst (NewDDLStatement exSys unsupportedAlter exMods (exTarget exConfig) exState)
       = Return None (Some (OtherError ''unsupported table diff''))"
proof -
  let ?s0 = "snd (newVar exMods exState)"
  have h1: "newVar exMods exState = (fresh exState, ?s0)"
    by (simp add: newVar_def)
  have a: "Statement noopAlter (vars ?s0 (fresh exState)) = ('''', None)"
    by (simp add: noopAlter_def)
  have b: "Statement unsupportedAlter (vars ?s0 (fresh exState))
             = ('''', Some (OtherError ''unsupported table diff''))"
    by (simp add: unsupportedAlter_def)
  have a': "Statement noopAlter exMods = ('''', None)"
    by (simp add: noopAlter_def)
  have b': "Statement unsupportedAlter exMods = ('''', Some (OtherError ''unsupported table diff''))"
    by (simp add: unsupportedAlter_def)
  from noop_and_other_errors [OF h1 plain_applySizeOptions plain_getWrapper, of noopAlter exSys] a
  have r1: "fst (NewDDLStatement exSys noopAlter exMods (exTarget exConfig) exState) = Return None None"
    by simp
  from noop_and_other_errors [OF h1 plain_applySizeOptions plain_getWrapper, of unsupportedAlter exSys] b
  have r2: "fst (NewDDLStatement exSys unsupportedAlter exMods (exTarget exConfig) exState)
              = Return None (Some (OtherError ''unsupported table diff''))"
    by simp
  from a' b' r1 r2 show ?thesis by simp
qed

subsection \<open>C5: statement text and external command\<close>

text \<open>
  Claim C5 says that a constructed DDLStatement has either a non-empty statement text or
  an external command, never both. The constructor stores the rendered text in \<open>stmt\<close>
  before it looks at the wrapper and never clears it, so with a wrapper both are set:
  \<open>text_and_command_both_set\<close> constructs such a statement.

  Claim C5, as amended. Every constructed DDLStatement has a non-empty statement text, with
  or without an external command; so the two are never both absent, and both are set
  whenever an external command is present.
\<close>

theorem constructed_text_nonempty:
  assumes "fst (NewDDLStatement sys diff mods target s) = Return (Some ddl) None"
  shows "stmt ddl \<noteq> ''''"
proof -
  from fst_NewDDLStatement_Some [OF assms] obtain m tableSize wrapper where
    "buildDDL sys diff m target (newDDL diff target) tableSize wrapper = Return (Some ddl) None"
    by blast
  from buildDDL_stmt [OF this] show ?thesis by blast
qed

theorem text_and_command_both_set:
  "fst (NewDDLStatement exSys createTable exMods (exTarget wrapperConfig) exState) =
     Return (Some \<lparr>stmt = ''CREATE TABLE t (id int)'', compound = False,
                    shellOut = Some (ShellOut ''/usr/bin/true''), ddl_instance = exInstance,
                    schemaName = ''app'', connectParams = ''''\<rparr>) None"
  by (simp add: NewDDLStatement_def newVar_def applySizeOptions_def needTableSize_def
        getTableSize_def getWrapper_def buildDDL_def newDDL_def wrapperVariables_def
        getConnectParams_def rejectionError_def int64_def Let_def exConfig_def exInstance_def exTarget_def exSys_def exMods_def exState_def
        createTable_def wrapperConfig_def)

theorem constructed_text_nonempty_witness:
  "fst (NewDDLStatement exSys alterTable exMods (exTarget wrapperConfig) exState) =
     Return (Some \<lparr>stmt = ''ALTER TABLE t ALGORITHM=inplace, LOCK=none, ADD COLUMN c int'',
                    compound = False, shellOut = Some (ShellOut ''/usr/bin/true''),
                    ddl_instance = exInstance, schemaName = ''app'', connectParams = ''''\<rparr>) None
   \<and> ''ALTER TABLE t ALGORITHM=inplace, LOCK=none, ADD COLUMN c int'' \<noteq> ''''"
proof -
  let ?ddl = "\<lparr>stmt = ''ALTER TABLE t ALGORITHM=inplace, LOCK=none, ADD COLUMN c int'',
                compound = False, shellOut = Some (ShellOut ''/usr/bin/true''),
                ddl_instance = exInstance, schemaName = ''app'', connectParams = ''''\<rparr>"
  have e: "fst (NewDDLStatement exSys alterTable exMods (exTarget wrapperConfig) exState)
             = Return (Some ?ddl) None"
    by (simp add: NewDDLStatement_def newVar_def applySizeOptions_def needTableSize_def
        getTableSize_def getWrapper_def buildDDL_def newDDL_def wrapperVariables_def
        getConnectParams_def rejectionError_def int64_def Let_def exConfig_def exInstance_def exTarget_def exSys_def exMods_def exState_def
        alterTable_def alterClauses_def wrapperConfig_def Contains_def ToUpper_def)
  from constructed_text_nonempty [OF e] e show ?thesis by simp
qed

subsection \<open>C6: the compound flag\<close>

text \<open>
  Claim C6 says that no constructed DDLStatement has the compound flag set together with
  an external command. The constructor sets the flag from the diff alone, before it looks
  at the wrapper: \<open>compound_with_external_command\<close> constructs a compound statement that
  runs through a wrapper. \<open>ClientState\<close> then reports the empty delimiter, since it tests
  for the external command first.

  Claim C6, as amended. The compound flag of a constructed DDLStatement is set exactly when
  the diff implements the compound capability and reports a compound statement, whether
  or not an external command is present.
\<close>

theorem constructed_compound:
  assumes "fst (NewDDLStatement sys diff mods target s) = Return (Some ddl) None"
  shows "compound ddl = (asCompounder diff = Some True)"
proof -
  from fst_NewDDLStatement_Some [OF assms] obtain m tableSize wrapper where
    "buildDDL sys diff m target (newDDL diff target) tableSize wrapper = Return (Some ddl) None"
    by blast
  from buildDDL_compound [OF this] show ?thesis by (simp add: newDDL_fields)
qed

theorem compound_with_external_command:
  "fst (NewDDLStatement exSys createProc exMods (exTarget wrapperConfig) exState) =
     Return (Some \<lparr>stmt = ''CREATE PROCEDURE p() BEGIN SELECT 1; SELECT 2; END'', compound = True,
                    shellOut = Some (ShellOut ''/usr/bin/true''), ddl_instance = exInstance,
                    schemaName = ''app'', connectParams = ''''\<rparr>) None"
  by (simp add: NewDDLStatement_def newVar_def applySizeOptions_def needTableSize_def
        getTableSize_def getWrapper_def buildDDL_def newDDL_def wrapperVariables_def
        getConnectParams_def rejectionError_def int64_def Let_def exConfig_def exInstance_def exTarget_def exSys_def exMods_def exState_def
        createProc_def wrapperConfig_def)

theorem constructed_compound_witness:
  "fst (NewDDLStatement exSys createProc exMods (exTarget exConfig) exState) =
     Return (Some \<lparr>stmt = ''CREATE PROCEDURE p() BEGIN SELECT 1; SELECT 2; END'', compound = True,
                    shellOut = None, ddl_instance = exInstance,
                    schemaName = ''app'', connectParams = ''''\<rparr>) None
   \<and> asCompounder createProc = Some True"
proof -
  let ?ddl = "\<lparr>stmt = ''CREATE PROCEDURE p() BEGIN SELECT 1; SELECT 2; END'', compound = True,
                shellOut = None, ddl_instance = exInstance,
                schemaName = ''app'', connectParams = ''''\<rparr>"
  have e: "fst (NewDDLStatement exSys createProc exMods (exTarget exConfig) exState)
             = Return (Some ?ddl) None"
    by (simp add: NewDDLStatement_def newVar_def applySizeOptions_def needTableSize_def
        getTableSize_def getWrapper_def buildDDL_def newDDL_def wrapperVariables_def
        getConnectParams_def rejectionError_def int64_def Let_def exConfig_def exInstance_def exTarget_def exSys_def exMods_def exState_def
        createProc_def)
  from constructed_compound [OF e] e show ?thesis by simp
qed

subsection \<open>C7: the caller's modifiers\<close>

text \<open>
  Claim C7 says that the constructor changes the caller's modifiers in place, so that for
  some inputs the caller sees another value after the call. The parameter \<open>mods\<close> has the
  struct type, not a pointer type: the call copies the caller's value into a variable of
  the callee, and both the assignment to \<open>mods.AllowUnsafe\<close> and the writes of \<open>getWrapper\<close>
  through \<open>&mods\<close> go to that variable. No input makes a variable of the caller differ
  (\<open>caller_modifiers_never_differ\<close>).

  Claim C7, as amended. The constructor receives the modifiers by value and makes its
  adjustments (setting allow-unsafe when the safety gate fires, clearing the algorithm and
  lock clauses when a size-gated alter-wrapper is selected) on its own copy; for every
  input, every modifiers variable of the caller holds after the call the value it held
  before.
\<close>

theorem caller_variables_unchanged:
  assumes "a < fresh s"
  shows "vars (snd (NewDDLStatement sys diff mods target s)) a = vars s a"
  using assms by (rule vars_NewDDLStatement)

theorem caller_modifiers_never_differ:
  "\<not> (\<exists>sys diff target s a.
         a < fresh s \<and> vars (snd (NewDDLStatement sys diff (vars s a) target s)) a \<noteq> vars s a)"
  by (simp add: vars_NewDDLStatement)

theorem caller_variables_unchanged_witness:
  "0 < fresh exState
   \<and> vars (snd (NewDDLStatement exSys dropTable (vars exState 0)
                  (emptyTarget (safeBelowConfig 1048576)) exState)) 0 = vars exState 0
   \<and> \<not> AllowUnsafe (vars exState 0)
   \<and> AllowUnsafe (vars (snd (NewDDLStatement exSys dropTable (vars exState 0)
                                (emptyTarget (safeBelowConfig 1048576)) exState)) (fresh exState))"
proof -
  have a: "0 < fresh exState" by (simp add: exState_def)
  have b: "\<not> AllowUnsafe (vars exState 0)" by (simp add: exState_def exMods_def)
  have c: "AllowUnsafe (vars (snd (NewDDLStatement exSys dropTable (vars exState 0)
                                (emptyTarget (safeBelowConfig 1048576)) exState)) (fresh exState))"
    by (simp add: NewDDLStatement_def newVar_def applySizeOptions_def needTableSize_def
        getTableSize_def getWrapper_def buildDDL_def newDDL_def wrapperVariables_def
        getConnectParams_def rejectionError_def int64_def Let_def exConfig_def exInstance_def exTarget_def exSys_def exMods_def exState_def
        dropTable_def forbidUnlessUnsafe_def emptyTarget_def emptyTableInstance_def safeBelowConfig_def word_sless_alt)
  from caller_variables_unchanged [OF a, of exSys dropTable "vars exState 0"
         "emptyTarget (safeBelowConfig 1048576)"] a b c
  show ?thesis by simp
qed

subsection \<open>C8: connection parameters of a directly executed statement\<close>

text \<open>
  Claim C8 says that the connect params follow from the diff kind and the
  foreign-key-checks option alone, and that a drop yields \<open>readTimeout=0\<close>. The file asks
  first whether the diff is a \<open>*tengo.TableDiff\<close> (its comment: ALTER TABLE or DROP
  TABLE, which can be slow on large tables): the drop of an object that is not a table
  gets the empty string (\<open>routine_drop_has_no_connect_params\<close>).

  Claim C8, as amended. For a DDLStatement constructed without a wrapper the connect
  params follow from whether the diff is a table diff, its kind, the foreign-key-checks
  option and whether it adds foreign keys: a table alteration that adds a foreign key
  with foreign-key-checks enabled yields \<open>readTimeout=0&foreign_key_checks=1\<close>; every other
  table alteration yields \<open>readTimeout=0\<close>; a table drop yields \<open>readTimeout=0\<close>; every
  other table diff, and every diff that is not a table diff (also a drop), yields the
  empty string.
\<close>

theorem direct_connect_params:
  assumes "newVar mods s = (p, s0)"
      and "applySizeOptions diff p target s0 = (Inr tableSize, s1)"
      and "getWrapper (Config (Dir target)) diff tableSize p s1 = (('''', None), s2)"
      and "fst (NewDDLStatement sys diff mods target s) = Return (Some ddl) None"
  shows "(\<forall>td. asTableDiff diff = Some td \<and> td_Type td = DiffTypeAlter
              \<and> GetBool (Config (Dir target)) ''foreign-key-checks'' \<and> addFKs td
            \<longrightarrow> connectParams ddl = ''readTimeout=0&foreign_key_checks=1'')
       \<and> (\<forall>td. asTableDiff diff = Some td \<and> td_Type td = DiffTypeAlter
              \<and> \<not> (GetBool (Config (Dir target)) ''foreign-key-checks'' \<and> addFKs td)
            \<longrightarrow> connectParams ddl = ''readTimeout=0'')
       \<and> (\<forall>td. asTableDiff diff = Some td \<and> td_Type td = DiffTypeDrop
            \<longrightarrow> connectParams ddl = ''readTimeout=0'')
       \<and> (\<forall>td. asTableDiff diff = Some td \<and> td_Type td \<noteq> DiffTypeAlter \<and> td_Type td \<noteq> DiffTypeDrop
            \<longrightarrow> connectParams ddl = '''')
       \<and> (asTableDiff diff = None \<longrightarrow> connectParams ddl = '''')"
proof -
  have "buildDDL sys diff (vars s2 p) target (newDDL diff target) tableSize '''' = Return (Some ddl) None"
    using NewDDLStatement_staged [OF assms(1-3), of sys] assms(4) by simp
  from buildDDL_direct [OF this]
  have "connectParams ddl = getConnectParams diff (Config (Dir target))" by simp
  then show ?thesis by (auto simp add: getConnectParams_def)
qed

theorem routine_drop_has_no_connect_params:
  "DiffType dropProc = DiffTypeDrop
   \<and> fst (NewDDLStatement exSys dropProc (exMods\<lparr>AllowUnsafe := True\<rparr>) (exTarget exConfig) exState) =
       Return (Some \<lparr>stmt = ''DROP PROCEDURE p'', compound = False, shellOut = None,
                      ddl_instance = exInstance, schemaName = ''app'', connectParams = ''''\<rparr>) None"
  by (simp add: NewDDLStatement_def newVar_def applySizeOptions_def needTableSize_def
        getTableSize_def getWrapper_def buildDDL_def newDDL_def wrapperVariables_def
        getConnectParams_def rejectionError_def int64_def Let_def exConfig_def exInstance_def exTarget_def exSys_def exMods_def exState_def
        dropProc_def forbidUnlessUnsafe_def)

theorem direct_connect_params_witness:
  "fst (NewDDLStatement exSys alterAddFK exMods (exTarget fkConfig) exState) =
       Return (Some \<lparr>stmt = ''ALTER TABLE t ADD FOREIGN KEY (u) REFERENCES users (id)'',
                      compound = False, shellOut = None, ddl_instance = exInstance, schemaName = ''app'',
                      connectParams = ''readTimeout=0&foreign_key_checks=1''\<rparr>) None
   \<and> fst (NewDDLStatement exSys dropTable (exMods\<lparr>AllowUnsafe := True\<rparr>) (exTarget exConfig) exState) =
       Return (Some \<lparr>stmt = ''DROP TABLE t'', compound = False, shellOut = None,
                      ddl_instance = exInstance, schemaName = ''app'',
                      connectParams = ''readTimeout=0''\<rparr>) None
   \<and> fst (NewDDLStatement exSys createTable exMods (exTarget exConfig) exState) =
       Return (Some \<lparr>stmt = ''CREATE TABLE t (id int)'', compound = False, shellOut = None,
                      ddl_instance = exInstance, schemaName = ''app'', connectParams = ''''\<rparr>) None"
proof -
  let ?s0 = "snd (newVar exMods exState)"
  let ?s0' = "snd (newVar (exMods\<lparr>AllowUnsafe := True\<rparr>) exState)"
  let ?fk = "\<lparr>stmt = ''ALTER TABLE t ADD FOREIGN KEY (u) REFERENCES users (id)'',
               compound = False, shellOut = None, ddl_instance = exInstance, schemaName = ''app'',
               connectParams = ''readTimeout=0&foreign_key_checks=1''\<rparr>"
  let ?dr = "\<lparr>stmt = ''DROP TABLE t'', compound = False, shellOut = None,
               ddl_instance = exInstance, schemaName = ''app'', connectParams = ''readTimeout=0''\<rparr>"
  let ?cr = "\<lparr>stmt = ''CREATE TABLE t (id int)'', compound = False, shellOut = None,
               ddl_instance = exInstance, schemaName = ''app'', connectParams = ''''\<rparr>"
  have e1: "fst (NewDDLStatement exSys alterAddFK exMods (exTarget fkConfig) exState)
              = Return (Some ?fk) None"
    by (simp add: NewDDLStatement_def newVar_def applySizeOptions_def needTableSize_def
        getTableSize_def getWrapper_def buildDDL_def newDDL_def wrapperVariables_def
        getConnectParams_def rejectionError_def int64_def Let_def exConfig_def exInstance_def exTarget_def exSys_def exMods_def exState_def
        alterAddFK_def fkConfig_def Contains_def ToUpper_def)
  have e2: "fst (NewDDLStatement exSys dropTable (exMods\<lparr>AllowUnsafe := True\<rparr>)
                   (exTarget exConfig) exState) = Return (Some ?dr) None"
    by (simp add: NewDDLStatement_def newVar_def applySizeOptions_def needTableSize_def
        getTableSize_def getWrapper_def buildDDL_def newDDL_def wrapperVariables_def
        getConnectParams_def rejectionError_def int64_def Let_def exConfig_def exInstance_def exTarget_def exSys_def exMods_def exState_def
        dropTable_def forbidUnlessUnsafe_def Contains_def ToUpper_def)
  have e3: "fst (NewDDLStatement exSys createTable exMods (exTarget exConfig) exState)
              = Return (Some ?cr) None"
    by (simp add: NewDDLStatement_def newVar_def applySizeOptions_def needTableSize_def
        getTableSize_def getWrapper_def buildDDL_def newDDL_def wrapperVariables_def
        getConnectParams_def rejectionError_def int64_def Let_def exConfig_def exInstance_def exTarget_def exSys_def exMods_def exState_def
        createTable_def)
  have h1: "newVar exMods exState = (fresh exState, ?s0)"
    by (simp add: newVar_def)
  have h1': "newVar (exMods\<lparr>AllowUnsafe := True\<rparr>) exState = (fresh exState, ?s0')"
    by (simp add: newVar_def)
  have t1: "asTableDiff alterAddFK = Some \<lparr>td_Type = DiffTypeAlter, addFKs = True,
              Clauses = (\<lambda>m. (''ADD FOREIGN KEY (u) REFERENCES users (id)'', None))\<rparr>"
    by (simp add: alterAddFK_def)
  have t2: "asTableDiff dropTable = Some \<lparr>td_Type = DiffTypeDrop, addFKs = False,
              Clauses = (\<lambda>m. ('''', None))\<rparr>"
    by (simp add: dropTable_def)
  have t3: "asTableDiff createTable = Some \<lparr>td_Type = DiffTypeCreate, addFKs = False,
              Clauses = (\<lambda>m. ('''', None))\<rparr>"
    by (simp add: createTable_def)
  have g: "GetBool (Config (Dir (exTarget fkConfig))) ''foreign-key-checks''"
    by (simp add: exTarget_def fkConfig_def exConfig_def)
  from direct_connect_params [OF h1 fk_applySizeOptions fk_getWrapper e1] t1 g
  have c1: "connectParams ?fk = ''readTimeout=0&foreign_key_checks=1''" by simp
  from direct_connect_params [OF h1' plain_applySizeOptions plain_getWrapper e2] t2
  have c2: "connectParams ?dr = ''readTimeout=0''" by simp
  from direct_connect_params [OF h1 plain_applySizeOptions plain_getWrapper e3] t3
  have c3: "connectParams ?cr = ''''" by simp
  from e1 e2 e3 c1 c2 c3 show ?thesis by simp
qed

subsection \<open>C9: when the table size is queried\<close>

text \<open>
  Claim C9. A table size query is needed exactly when the diff targets a table, its kind
  is not creation, and the safe-below-size option is explicitly set, or the
  alter-wrapper-min-size option is explicitly set, or the alter-wrapper or the general
  wrapper template contains the placeholder \<open>{SIZE}\<close>; the file upper-cases the template
  before it searches, so the placeholder counts in any letter case. Queries are sent to
  the instance during construction exactly in that case. In particular a creation sends
  no query and its size is 0.
\<close>

theorem table_size_query_iff:
  "(needTableSize diff (Config (Dir target)) \<longleftrightarrow>
      Type (ObjectKey diff) = ObjectTypeTable \<and> DiffType diff \<noteq> DiffTypeCreate \<and>
      (Changed (Config (Dir target)) ''safe-below-size''
       \<or> Changed (Config (Dir target)) ''alter-wrapper-min-size''
       \<or> Contains (ToUpper (Get (Config (Dir target)) ''alter-wrapper'')) ''{SIZE}''
       \<or> Contains (ToUpper (Get (Config (Dir target)) ''ddl-wrapper'')) ''{SIZE}''))
   \<and> (queries (snd (NewDDLStatement sys diff mods target s)) \<noteq> queries s
        \<longleftrightarrow> needTableSize diff (Config (Dir target)))
   \<and> (DiffType diff = DiffTypeCreate \<longrightarrow>
        queries (snd (NewDDLStatement sys diff mods target s)) = queries s
        \<and> applySizeOptions diff p target s0 = (Inr 0, s0))"
proof -
  have a: "queries (snd (NewDDLStatement sys diff mods target s)) \<noteq> queries s
        \<longleftrightarrow> needTableSize diff (Config (Dir target))"
    by (simp add: queries_NewDDLStatement queries_getTableSize)
  have b: "DiffType diff = DiffTypeCreate \<Longrightarrow> \<not> needTableSize diff (Config (Dir target))"
    by (simp add: needTableSize_unfold)
  have c: "DiffType diff = DiffTypeCreate \<Longrightarrow> applySizeOptions diff p target s0 = (Inr 0, s0)"
    using b by (simp add: applySizeOptions_def)
  from a b c needTableSize_unfold [of diff "Config (Dir target)"] show ?thesis by blast
qed

theorem table_size_query_iff_witness:
  "DiffType createTable = DiffTypeCreate
   \<and> queries (snd (NewDDLStatement exSys createTable exMods
                     (exTarget (safeBelowConfig 1048576)) exState)) = queries exState
   \<and> applySizeOptions createTable 1 (exTarget (safeBelowConfig 1048576)) exState = (Inr 0, exState)
   \<and> needTableSize dropTable (Config (Dir (exTarget (safeBelowConfig 1048576))))
   \<and> needTableSize alterTable (Config (Dir (exTarget sizeWrapperConfig)))
   \<and> \<not> needTableSize alterTable (Config (Dir (exTarget exConfig)))"
proof -
  have k: "DiffType createTable = DiffTypeCreate" by (simp add: createTable_def)
  have u: "ToUpper ''/bin/echo {size}'' = ''/BIN/ECHO {SIZE}''" by code_simp
  have n1: "Type (ObjectKey dropTable) = ObjectTypeTable \<and> DiffType dropTable \<noteq> DiffTypeCreate
            \<and> Changed (Config (Dir (exTarget (safeBelowConfig 1048576)))) ''safe-below-size''"
    by (simp add: exTarget_def exConfig_def dropTable_def safeBelowConfig_def)
  have n2: "Type (ObjectKey alterTable) = ObjectTypeTable \<and> DiffType alterTable \<noteq> DiffTypeCreate
            \<and> Contains (ToUpper (Get (Config (Dir (exTarget sizeWrapperConfig))) ''ddl-wrapper'')) ''{SIZE}''"
    using u by (simp add: exTarget_def exConfig_def alterTable_def sizeWrapperConfig_def Contains_def sublist_Cons_right)
  have n3: "\<not> Changed (Config (Dir (exTarget exConfig))) ''safe-below-size''
            \<and> \<not> Changed (Config (Dir (exTarget exConfig))) ''alter-wrapper-min-size''
            \<and> \<not> Contains (ToUpper (Get (Config (Dir (exTarget exConfig))) ''alter-wrapper'')) ''{SIZE}''
            \<and> \<not> Contains (ToUpper (Get (Config (Dir (exTarget exConfig))) ''ddl-wrapper'')) ''{SIZE}''"
    by (simp add: exTarget_def exConfig_def Contains_def ToUpper_def)
  from table_size_query_iff [of createTable "exTarget (safeBelowConfig 1048576)" exSys exMods exState
         1 exState] k
  have r1: "queries (snd (NewDDLStatement exSys createTable exMods
                     (exTarget (safeBelowConfig 1048576)) exState)) = queries exState
            \<and> applySizeOptions createTable 1 (exTarget (safeBelowConfig 1048576)) exState = (Inr 0, exState)"
    by blast
  from table_size_query_iff [of dropTable "exTarget (safeBelowConfig 1048576)" exSys exMods exState
         1 exState] n1
  have r2: "needTableSize dropTable (Config (Dir (exTarget (safeBelowConfig 1048576))))" by blast
  from table_size_query_iff [of alterTable "exTarget sizeWrapperConfig" exSys exMods exState
         1 exState] n2
  have r3: "needTableSize alterTable (Config (Dir (exTarget sizeWrapperConfig)))" by blast
  from table_size_query_iff [of alterTable "exTarget exConfig" exSys exMods exState
         1 exState] n3
  have r4: "\<not> needTableSize alterTable (Config (Dir (exTarget exConfig)))" by blast
  from k r1 r2 r3 r4 show ?thesis by blast
qed

subsection \<open>C10: the delimiter reported by ClientState\<close>

text \<open>
  Claim C10. For every DDLStatement, the delimiter of its ClientState is the empty string
  when an external command is present; otherwise it is \<open>//\<close> when the compound flag is
  set, and \<open>;\<close> in the remaining case.
\<close>

theorem ClientState_delimiter:
  "Delimiter (ClientState ddl) =
     (if shellOut ddl \<noteq> None then '''' else if compound ddl then ''//'' else '';'')"
  by (simp add: ClientState_def Let_def)

end
